theory Spec2Isabelle
  imports Complex_Main "HOL-Library.Word"
begin

section \<open>JavaScript numbers and strings\<close>

text \<open>
  A JavaScript number is modelled as an exact real or one of the three special values of
  IEEE arithmetic. Rounding is abstracted away (finite arithmetic is exact) and the sign of
  zero is not tracked: every zero divisor of the program is an array length or a length
  minus one, hence the positive zero.
\<close>

datatype jsnum = Num real | PosInf | NegInf | NaN

fun isFinite :: "jsnum \<Rightarrow> bool" where
  "isFinite (Num _) = True"
| "isFinite _ = False"

fun jneg :: "jsnum \<Rightarrow> jsnum" where
  "jneg (Num a) = Num (- a)"
| "jneg PosInf = NegInf"
| "jneg NegInf = PosInf"
| "jneg NaN = NaN"

fun jadd :: "jsnum \<Rightarrow> jsnum \<Rightarrow> jsnum" where
  "jadd (Num a) (Num b) = Num (a + b)"
| "jadd NaN _ = NaN"
| "jadd _ NaN = NaN"
| "jadd PosInf NegInf = NaN"
| "jadd NegInf PosInf = NaN"
| "jadd PosInf _ = PosInf"
| "jadd _ PosInf = PosInf"
| "jadd NegInf _ = NegInf"
| "jadd _ NegInf = NegInf"

definition jsub :: "jsnum \<Rightarrow> jsnum \<Rightarrow> jsnum" where
  "jsub a b = jadd a (jneg b)"

fun jmul :: "jsnum \<Rightarrow> jsnum \<Rightarrow> jsnum" where
  "jmul (Num a) (Num b) = Num (a * b)"
| "jmul NaN _ = NaN"
| "jmul _ NaN = NaN"
| "jmul (Num a) PosInf = (if a = 0 then NaN else if 0 < a then PosInf else NegInf)"
| "jmul (Num a) NegInf = (if a = 0 then NaN else if 0 < a then NegInf else PosInf)"
| "jmul PosInf (Num b) = (if b = 0 then NaN else if 0 < b then PosInf else NegInf)"
| "jmul NegInf (Num b) = (if b = 0 then NaN else if 0 < b then NegInf else PosInf)"
| "jmul PosInf PosInf = PosInf"
| "jmul NegInf NegInf = PosInf"
| "jmul PosInf NegInf = NegInf"
| "jmul NegInf PosInf = NegInf"

fun jdiv :: "jsnum \<Rightarrow> jsnum \<Rightarrow> jsnum" where
  "jdiv (Num a) (Num b) =
     (if b \<noteq> 0 then Num (a / b)
      else if a = 0 then NaN
      else if 0 < a then PosInf else NegInf)"
| "jdiv NaN _ = NaN"
| "jdiv _ NaN = NaN"
| "jdiv (Num a) _ = Num 0"
| "jdiv PosInf (Num b) = (if 0 \<le> b then PosInf else NegInf)"
| "jdiv NegInf (Num b) = (if 0 \<le> b then NegInf else PosInf)"
| "jdiv _ _ = NaN"

fun jabs :: "jsnum \<Rightarrow> jsnum" where
  "jabs (Num a) = Num \<bar>a\<bar>"
| "jabs NaN = NaN"
| "jabs _ = PosInf"

fun jgt :: "jsnum \<Rightarrow> jsnum \<Rightarrow> bool" where
  "jgt (Num a) (Num b) = (b < a)"
| "jgt NaN _ = False"
| "jgt _ NaN = False"
| "jgt PosInf PosInf = False"
| "jgt PosInf _ = True"
| "jgt NegInf _ = False"
| "jgt _ NegInf = True"
| "jgt _ PosInf = False"

definition jlt :: "jsnum \<Rightarrow> jsnum \<Rightarrow> bool" where
  "jlt a b = jgt b a"

definition jge :: "jsnum \<Rightarrow> jsnum \<Rightarrow> bool" where
  "jge a b = (jgt a b \<or> (a = b \<and> a \<noteq> NaN))"

definition jle :: "jsnum \<Rightarrow> jsnum \<Rightarrow> bool" where
  "jle a b = jge b a"

text \<open>\<^verbatim>\<open>Math.max\<close> and \<^verbatim>\<open>Math.min\<close> of two numbers; any \<^verbatim>\<open>NaN\<close> argument gives \<^verbatim>\<open>NaN\<close>.\<close>

definition jmax :: "jsnum \<Rightarrow> jsnum \<Rightarrow> jsnum" where
  "jmax a b = (if a = NaN \<or> b = NaN then NaN else if jgt b a then b else a)"

definition jmin :: "jsnum \<Rightarrow> jsnum \<Rightarrow> jsnum" where
  "jmin a b = (if a = NaN \<or> b = NaN then NaN else if jgt a b then b else a)"

text \<open>\<^verbatim>\<open>Math.max(...xs)\<close> and \<^verbatim>\<open>Math.min(...xs)\<close>: the empty spread gives the infinities.\<close>

definition Math_max :: "jsnum list \<Rightarrow> jsnum" where
  "Math_max xs = foldl jmax NegInf xs"

definition Math_min :: "jsnum list \<Rightarrow> jsnum" where
  "Math_min xs = foldl jmin PosInf xs"

fun Math_sqrt :: "jsnum \<Rightarrow> jsnum" where
  "Math_sqrt (Num a) = (if a < 0 then NaN else Num (sqrt a))"
| "Math_sqrt PosInf = PosInf"
| "Math_sqrt _ = NaN"

fun Math_exp :: "jsnum \<Rightarrow> jsnum" where
  "Math_exp (Num a) = Num (exp a)"
| "Math_exp PosInf = PosInf"
| "Math_exp NegInf = Num 0"
| "Math_exp NaN = NaN"

text \<open>\<^verbatim>\<open>x || y\<close> on numbers: \<^verbatim>\<open>NaN\<close> and zero are falsy.\<close>

definition jor :: "jsnum \<Rightarrow> jsnum \<Rightarrow> jsnum" where
  "jor x y = (if x = NaN \<or> x = Num 0 then y else x)"

text \<open>\<^verbatim>\<open>xs.reduce((sum, v) => sum + v, 0)\<close>.\<close>

definition jsum :: "jsnum list \<Rightarrow> jsnum" where
  "jsum xs = foldl jadd (Num 0) xs"

definition len :: "'a list \<Rightarrow> jsnum" where
  "len xs = Num (real (length xs))"

text \<open>
  Strings are ASCII strings, one \<^typ>\<open>char\<close> per UTF-16 code unit, so \<^const>\<open>length\<close>
  is \<^verbatim>\<open>.length\<close>.
\<close>

definition toLowerChar :: "char \<Rightarrow> char" where
  "toLowerChar c =
     (let n = (of_char c :: nat) in if 65 \<le> n \<and> n \<le> 90 then char_of (n + 32) else c)"

definition toLowerCase :: "string \<Rightarrow> string" where
  "toLowerCase s = map toLowerChar s"

text \<open>\<^verbatim>\<open>s.split(' ')\<close>: one piece more than there are spaces; the empty string gives one empty piece.\<close>

fun split_space :: "string \<Rightarrow> string list" where
  "split_space [] = [[]]"
| "split_space (c # cs) =
     (if c = CHR '' '' then [] # split_space cs
      else (case split_space cs of
              [] \<Rightarrow> [[c]]
            | w # ws \<Rightarrow> (c # w) # ws))"

text \<open>\<^verbatim>\<open>xs.join(' ')\<close>.\<close>

fun join_space :: "string list \<Rightarrow> string" where
  "join_space [] = []"
| "join_space [x] = x"
| "join_space (x # y # ys) = x @ CHR '' '' # join_space (y # ys)"

definition arr_includes :: "'a list \<Rightarrow> 'a \<Rightarrow> bool" where
  "arr_includes xs x = (x \<in> set xs)"

section \<open>Attention mechanism (\<^verbatim>\<open>src/utils/attention.js\<close>)\<close>

record AttentionMechanism =
  contextWindow :: nat
  attentionWeights :: "jsnum list"
  memoryBank :: "string list"

definition constructor :: AttentionMechanism where
  "constructor = \<lparr>contextWindow = 10, attentionWeights = [], memoryBank = []\<rparr>"

definition highImportance :: "string list" where
  "highImportance =
     [''important'', ''critical'', ''urgent'', ''problem'', ''solution'', ''error'',
      ''success'', ''failure'', ''meeting'', ''deadline'', ''project'', ''result'']"

definition mediumImportance :: "string list" where
  "mediumImportance =
     [''please'', ''thank'', ''help'', ''question'', ''answer'', ''information'',
      ''data'', ''report'', ''analysis'', ''summary'', ''detail'', ''process'']"

definition lowImportance :: "string list" where
  "lowImportance =
     [''the'', ''and'', ''or'', ''but'', ''in'', ''on'', ''at'', ''to'', ''for'', ''of'',
      ''with'', ''by'', ''from'', ''up'', ''about'', ''into'', ''through'', ''during'']"

definition getSemanticGroups :: "string list list" where
  "getSemanticGroups =
     [[''meeting'', ''conference'', ''call'', ''discussion'', ''talk''],
      [''project'', ''task'', ''work'', ''job'', ''assignment''],
      [''problem'', ''issue'', ''bug'', ''error'', ''trouble''],
      [''data'', ''information'', ''report'', ''analysis'', ''statistics''],
      [''time'', ''schedule'', ''deadline'', ''date'', ''calendar''],
      [''money'', ''cost'', ''budget'', ''price'', ''financial'']]"

text \<open>The loop over the semantic groups, returning at the first group that matches.\<close>

fun groupLoop :: "string list list \<Rightarrow> string \<Rightarrow> string list \<Rightarrow> jsnum" where
  "groupLoop [] wordLower contextWords = Num 0.1"
| "groupLoop (g # gs) wordLower contextWords =
     (if arr_includes g wordLower \<and> list_ex (\<lambda>cWord. arr_includes g cWord) contextWords
      then Num 0.6
      else groupLoop gs wordLower contextWords)"

definition calculateContextRelevance :: "string \<Rightarrow> string list \<Rightarrow> jsnum" where
  "calculateContextRelevance word context =
     (let contextWords = split_space (toLowerCase (join_space context));
          wordLower = toLowerCase word
      in if arr_includes contextWords wordLower then Num 0.8
         else groupLoop getSemanticGroups wordLower contextWords)"

definition softmax :: "jsnum list \<Rightarrow> jsnum list" where
  "softmax weights =
     (let expWeights = map Math_exp weights;
          sumExp = jsum expWeights
      in map (\<lambda>e. jdiv e sumExp) expWeights)"

text \<open>The body of the \<^verbatim>\<open>forEach\<close> of \<^verbatim>\<open>calculateAttention\<close>, for the word at \<open>index\<close>.\<close>

definition wordWeight :: "string list \<Rightarrow> string list \<Rightarrow> string \<Rightarrow> nat \<Rightarrow> jsnum" where
  "wordWeight words context word index =
     (let weight = Num 0.3;
          weight = (if arr_includes highImportance (toLowerCase word) then jadd weight (Num 0.4)
                    else if arr_includes mediumImportance (toLowerCase word) then jadd weight (Num 0.2)
                    else weight);
          weight = (if index = 0 \<or> int index = int (length words) - 1 then jadd weight (Num 0.2)
                    else weight);
          weight = (if length word > 6 then jadd weight (Num 0.1) else weight);
          weight = (if length context > 0
                    then jadd weight (jmul (calculateContextRelevance word context) (Num 0.3))
                    else weight)
      in jmin (Num 1.0) (jmax (Num 0.2) weight))"

definition calculateAttention :: "string list \<Rightarrow> string list \<Rightarrow> jsnum list" where
  "calculateAttention words context =
     softmax (map (\<lambda>(word, index). wordWeight words context word index)
                  (zip words [0 ..< length words]))"

definition updateMemory :: "AttentionMechanism \<Rightarrow> string \<Rightarrow> AttentionMechanism" where
  "updateMemory this utterance =
     (let bank = memoryBank this @ [utterance]
      in this\<lparr>memoryBank := (if length bank > 5 then tl bank else bank)\<rparr>)"

text \<open>
  \<^verbatim>\<open>xs.slice(start)\<close>: a negative start counts from the end, and both directions are
  cut at the bounds of the array.
\<close>

definition slice_from :: "int \<Rightarrow> 'a list \<Rightarrow> 'a list" where
  "slice_from start xs =
     (let n = int (length xs);
          k = (if start < 0 then max (n + start) 0 else min start n)
      in drop (nat k) xs)"

definition getRecentContext :: "AttentionMechanism \<Rightarrow> int \<Rightarrow> string list" where
  "getRecentContext this numUtterances = slice_from (- numUtterances) (memoryBank this)"

definition calculateContentAttention :: "string list \<Rightarrow> jsnum list" where
  "calculateContentAttention words =
     map (\<lambda>word. if arr_includes lowImportance (toLowerCase word) then Num 0.2 else Num 0.8) words"

definition calculatePositionalAttention :: "string list \<Rightarrow> jsnum list" where
  "calculatePositionalAttention words =
     map (\<lambda>index.
            let relativePos = jdiv (Num (real index)) (jsub (len words) (Num 1))
            in jadd (Num 0.3) (jmul (Num 0.7) (jmul (jabs (jsub relativePos (Num 0.5))) (Num 2))))
         [0 ..< length words]"

definition calculateContextualAttention :: "AttentionMechanism \<Rightarrow> string list \<Rightarrow> jsnum list" where
  "calculateContextualAttention this words =
     (let context = getRecentContext this 3
      in map (\<lambda>word. jadd (Num 0.3) (jmul (calculateContextRelevance word context) (Num 0.7)))
             words)"

text \<open>The weights of one head, by the \<^verbatim>\<open>switch\<close> on the head number.\<close>

definition headWeights :: "AttentionMechanism \<Rightarrow> string list \<Rightarrow> nat \<Rightarrow> jsnum list" where
  "headWeights this words head =
     (if head = 0 then calculateContentAttention words
      else if head = 1 then calculatePositionalAttention words
      else if head = 2 then calculateContextualAttention this words
      else calculateAttention words [])"

text \<open>\<^verbatim>\<open>head[i]\<close>: an index past the end reads \<^verbatim>\<open>undefined\<close>, which the sum turns into \<^verbatim>\<open>NaN\<close>.\<close>

definition at_index :: "jsnum list \<Rightarrow> nat \<Rightarrow> jsnum" where
  "at_index head i = (if i < length head then head ! i else NaN)"

definition multiHeadAttention :: "AttentionMechanism \<Rightarrow> string list \<Rightarrow> nat \<Rightarrow> jsnum list" where
  "multiHeadAttention this words numHeads =
     (let headResults = map (headWeights this words) [0 ..< numHeads]
      in map (\<lambda>i. jdiv (foldl (\<lambda>sum head. jadd sum (at_index head i)) (Num 0) headResults)
                       (Num (real numHeads)))
             [0 ..< length words])"

section \<open>Audio processing (\<^verbatim>\<open>src/utils/audio.js\<close>)\<close>

record FrequencyDistribution =
  low :: jsnum
  mid :: jsnum
  high :: jsnum

record AudioData =
  average :: jsnum
  peak :: jsnum
  rms :: jsnum
  isSpeaking :: bool
  frequencyDistribution :: FrequencyDistribution
  timestamp :: nat

text \<open>An element of the \<^verbatim>\<open>Uint8Array\<close>, read as a number.\<close>

definition byte :: "8 word \<Rightarrow> jsnum" where
  "byte w = Num (real (unat w))"

text \<open>
  \<^verbatim>\<open>xs.slice(start, end)\<close> with fractional bounds: each bound is truncated to an integer,
  a negative one counts from the end, and both are cut at the bounds of the array.
\<close>

definition toInteger :: "real \<Rightarrow> int" where
  "toInteger r = (if 0 \<le> r then \<lfloor>r\<rfloor> else \<lceil>r\<rceil>)"

definition relIndex :: "int \<Rightarrow> int \<Rightarrow> int" where
  "relIndex n k = (if k < 0 then max (n + k) 0 else min k n)"

definition slice :: "real \<Rightarrow> real \<Rightarrow> 'a list \<Rightarrow> 'a list" where
  "slice start end xs =
     (let n = int (length xs);
          from = relIndex n (toInteger start);
          final = relIndex n (toInteger end)
      in take (nat (final - from)) (drop (nat from) xs))"

definition mean :: "jsnum list \<Rightarrow> jsnum" where
  "mean xs = jdiv (jsum xs) (len xs)"

text \<open>
  \<^verbatim>\<open>analyzeFrequencyData\<close>, as a function of the bytes that the analyser wrote into
  \<^verbatim>\<open>dataArray\<close> and of the clock. The slice of the high band has no end argument, so it
  ends at the length of the array.
\<close>

definition analyzeFrequencyData :: "8 word list \<Rightarrow> nat \<Rightarrow> AudioData" where
  "analyzeFrequencyData dataArray now =
     (let bufferLength = real (length dataArray);
          average = jdiv (jsum (map byte dataArray)) (Num bufferLength);
          peak = Math_max (map byte dataArray);
          rms = Math_sqrt (jdiv (jsum (map (\<lambda>value. jmul (byte value) (byte value)) dataArray))
                                (Num bufferLength));
          speechThreshold = Num 30;
          isSpeaking = jgt average speechThreshold;
          lowFreq = slice 0 (bufferLength / 4) dataArray;
          midFreq = slice (bufferLength / 4) ((3 * bufferLength) / 4) dataArray;
          highFreq = slice ((3 * bufferLength) / 4) bufferLength dataArray;
          lowEnergy = mean (map byte lowFreq);
          midEnergy = mean (map byte midFreq);
          highEnergy = mean (map byte highFreq)
      in \<lparr>average = jdiv average (Num 255),
          peak = jdiv peak (Num 255),
          rms = jdiv rms (Num 255),
          isSpeaking = isSpeaking,
          frequencyDistribution =
            \<lparr>low = jdiv lowEnergy (Num 255),
             mid = jdiv midEnergy (Num 255),
             high = jdiv highEnergy (Num 255)\<rparr>,
          timestamp = now\<rparr>)"

record SpeechCharacteristics =
  averageVolume :: jsnum
  consistency :: jsnum
  speechPattern :: string
  speechRatio :: jsnum
  quality :: string

text \<open>The result \<^verbatim>\<open>null\<close> is \<^const>\<open>None\<close>.\<close>

definition calculateSpeechCharacteristics :: "AudioData list \<Rightarrow> SpeechCharacteristics option" where
  "calculateSpeechCharacteristics audioHistory =
     (if length audioHistory = 0 then None
      else
        let recentData = slice_from (- 10) audioHistory;
            avgVolume = jdiv (jsum (map average recentData)) (len recentData);
            consistency = jsub (Num 1) (jsub (Math_max (map average recentData))
                                             (Math_min (map average recentData)));
            speakingFrames = length (filter isSpeaking recentData);
            speechRatio = jdiv (Num (real speakingFrames)) (len recentData);
            speechPattern = ''unknown'';
            speechPattern =
              (if jgt speechRatio (Num 0.8) then ''continuous''
               else if jgt speechRatio (Num 0.5) then ''intermittent''
               else if jgt speechRatio (Num 0.2) then ''sparse''
               else ''silent'')
        in Some \<lparr>averageVolume = avgVolume,
                 consistency = consistency,
                 speechPattern = speechPattern,
                 speechRatio = speechRatio,
                 quality = (if jgt avgVolume (Num 0.3) \<and> jgt consistency (Num 0.5)
                            then ''high'' else ''medium'')\<rparr>)"

definition generateRecommendations :: "nat \<Rightarrow> string list \<Rightarrow> string list" where
  "generateRecommendations score factors =
     (if score < 75 then
        (if \<not> arr_includes factors ''Good volume level''
         then [''Adjust microphone distance or system volume''] else [])
        @ (if \<not> arr_includes factors ''Good frequency distribution''
           then [''Check microphone quality and reduce background noise''] else [])
        @ (if \<not> arr_includes factors ''Consistent audio levels''
           then [''Maintain steady speaking volume and distance''] else [])
        @ (if \<not> arr_includes factors ''Good dynamic range''
           then [''Ensure proper microphone settings and audio drivers''] else [])
      else [])"

text \<open>The conditions of the four checks of \<^verbatim>\<open>assessQuality\<close>.\<close>

definition goodVolume :: "AudioData \<Rightarrow> bool" where
  "goodVolume audioData =
     (jge (average audioData) (Num 0.3) \<and> jle (average audioData) (Num 0.8))"

definition goodFrequency :: "AudioData \<Rightarrow> bool" where
  "goodFrequency audioData =
     (jgt (mid (frequencyDistribution audioData)) (low (frequencyDistribution audioData))
      \<and> jgt (mid (frequencyDistribution audioData)) (high (frequencyDistribution audioData)))"

definition consistentLevels :: "SpeechCharacteristics option \<Rightarrow> bool" where
  "consistentLevels speechCharacteristics =
     (case speechCharacteristics of
        None \<Rightarrow> False
      | Some sc \<Rightarrow> jgt (consistency sc) (Num 0.7))"

definition goodRange :: "AudioData \<Rightarrow> bool" where
  "goodRange audioData = (jgt (rms audioData) (Num 0.1) \<and> jlt (rms audioData) (Num 0.8))"

text \<open>The four checks, each a step on the pair of score and factors.\<close>

definition volumeCheck :: "AudioData \<Rightarrow> nat \<times> string list \<Rightarrow> nat \<times> string list" where
  "volumeCheck audioData = (\<lambda>(score, factors).
     if goodVolume audioData then (score + 25, factors @ [''Good volume level''])
     else if jlt (average audioData) (Num 0.1) then (score, factors @ [''Volume too low''])
     else if jgt (average audioData) (Num 0.9) then (score, factors @ [''Volume too high''])
     else (score, factors))"

definition frequencyCheck :: "AudioData \<Rightarrow> nat \<times> string list \<Rightarrow> nat \<times> string list" where
  "frequencyCheck audioData = (\<lambda>(score, factors).
     if goodFrequency audioData then (score + 25, factors @ [''Good frequency distribution''])
     else (score, factors))"

definition consistencyCheck ::
  "SpeechCharacteristics option \<Rightarrow> nat \<times> string list \<Rightarrow> nat \<times> string list" where
  "consistencyCheck speechCharacteristics = (\<lambda>(score, factors).
     if consistentLevels speechCharacteristics
     then (score + 25, factors @ [''Consistent audio levels''])
     else (score, factors))"

definition rmsCheck :: "AudioData \<Rightarrow> nat \<times> string list \<Rightarrow> nat \<times> string list" where
  "rmsCheck audioData = (\<lambda>(score, factors).
     if goodRange audioData then (score + 25, factors @ [''Good dynamic range''])
     else (score, factors))"

text \<open>The tiering at the end of \<^verbatim>\<open>assessQuality\<close>.\<close>

definition qualityLevel :: "nat \<Rightarrow> string" where
  "qualityLevel score =
     (let qualityLevel = ''poor'' in
      if score \<ge> 75 then ''excellent''
      else if score \<ge> 50 then ''good''
      else if score \<ge> 25 then ''fair''
      else qualityLevel)"

record QualityAssessment =
  score :: nat
  level :: string
  factors :: "string list"
  recommendations :: "string list"

definition assessQuality :: "AudioData \<Rightarrow> SpeechCharacteristics option \<Rightarrow> QualityAssessment" where
  "assessQuality audioData speechCharacteristics =
     (let checked =
            rmsCheck audioData
              (consistencyCheck speechCharacteristics
                (frequencyCheck audioData
                  (volumeCheck audioData (0, []))))
      in \<lparr>score = fst checked,
          level = qualityLevel (fst checked),
          factors = snd checked,
          recommendations = generateRecommendations (fst checked) (snd checked)\<rparr>)"

section \<open>Speech features and classifier\<close>

record TextFeatures =
  wordCount :: jsnum
  avgWordLength :: jsnum
  hasQuestionMarks :: jsnum
  hasExclamations :: jsnum
  speechRate :: jsnum
  sentiment :: jsnum
  complexity :: jsnum

definition positiveWords :: "string list" where
  "positiveWords =
     [''good'', ''great'', ''awesome'', ''excellent'', ''wonderful'', ''amazing'', ''fantastic'']"

definition negativeWords :: "string list" where
  "negativeWords =
     [''bad'', ''terrible'', ''awful'', ''horrible'', ''disgusting'', ''hate'', ''angry'']"

definition calculateSentiment :: "string list \<Rightarrow> jsnum" where
  "calculateSentiment words =
     foldl (\<lambda>score word.
              let score = (if arr_includes positiveWords word then jadd score (Num 1) else score)
              in if arr_includes negativeWords word then jsub score (Num 1) else score)
           (Num 0) words"

definition calculateComplexity :: "string list \<Rightarrow> jsnum" where
  "calculateComplexity words =
     (let complexWords = filter (\<lambda>word. length word > 6) words
      in jor (jdiv (len complexWords) (len words)) (Num 0))"

text \<open>\<^verbatim>\<open>(text.match(re) || []).length\<close> for a pattern that matches one given character.\<close>

definition countChar :: "char \<Rightarrow> string \<Rightarrow> jsnum" where
  "countChar c text = len (filter (\<lambda>d. d = c) text)"

definition extractFeatures :: "string \<Rightarrow> TextFeatures" where
  "extractFeatures text =
     (let words = split_space (toLowerCase text)
      in \<lparr>wordCount = len words,
          avgWordLength = jor (jdiv (jsum (map len words)) (len words)) (Num 0),
          hasQuestionMarks = countChar (CHR ''?'') text,
          hasExclamations = countChar (CHR ''!'') text,
          speechRate = len words,
          sentiment = calculateSentiment words,
          complexity = calculateComplexity words\<rparr>)"

record Classification =
  type :: string
  confidence :: jsnum

definition classify :: "TextFeatures \<Rightarrow> Classification" where
  "classify features =
     (if jgt (complexity features) (Num 0.3) \<and> jgt (avgWordLength features) (Num 5)
      then \<lparr>type = ''Formal Speech'', confidence = Num 0.85\<rparr>
      else if jgt (speechRate features) (Num 10) \<and> jgt (sentiment features) (Num 0)
      then \<lparr>type = ''Excited Speech'', confidence = Num 0.78\<rparr>
      else if jlt (avgWordLength features) (Num 4) \<and> jlt (wordCount features) (Num 5)
      then \<lparr>type = ''Casual Speech'', confidence = Num 0.82\<rparr>
      else if jlt (sentiment features) (Num 0)
      then \<lparr>type = ''Emotional Speech'', confidence = Num 0.76\<rparr>
      else if jlt (speechRate features) (Num 3)
      then \<lparr>type = ''Slow Speech'', confidence = Num 0.80\<rparr>
      else \<lparr>type = ''Normal Speech'', confidence = Num 0.75\<rparr>)"

section \<open>Predicates of the properties\<close>

text \<open>A finite number between 0 and 1.\<close>

definition inUnit :: "jsnum \<Rightarrow> bool" where
  "inUnit x = (case x of Num r \<Rightarrow> 0 \<le> r \<and> r \<le> 1 | _ \<Rightarrow> False)"

section \<open>Multi-head attention on a single token\<close>

lemma calculatePositionalAttention_single: "calculatePositionalAttention [w] = [NaN]"
  by (simp add: calculatePositionalAttention_def len_def jsub_def)

text \<open>
  Claim C1. The claim asks that \<^verbatim>\<open>multiHeadAttention\<close> with three heads returns one finite
  weight for a sequence of one token. The code does not: the positional head divides
  index 0 by length minus one, which is zero, so its weight is \<^verbatim>\<open>NaN\<close>, and the average of
  the three heads is \<^verbatim>\<open>NaN\<close> for every token and every memory.
\<close>

theorem multiHeadAttention_single_token_NaN:
  "multiHeadAttention this [w] 3 = [NaN] \<and> \<not> list_all isFinite (multiHeadAttention this [w] 3)"
  by (simp add: multiHeadAttention_def headWeights_def numeral_3_eq_3 upt_rec at_index_def
      calculatePositionalAttention_single calculateContentAttention_def
      calculateContextualAttention_def)

theorem multiHeadAttention_single_token_NaN_witness:
  "multiHeadAttention constructor [''a''] 3 = [NaN]"
  using multiHeadAttention_single_token_NaN [of constructor "''a''"] by simp

section \<open>Feature extraction on the empty string\<close>

text \<open>
  Claim C2. The claim asks for a word count of 0 on the empty string. The code splits the
  empty string into one empty word, so the word count is 1; the average word length and the
  complexity are 0 because that one word has length 0, and the guard against the division
  of zero by zero is never reached.
\<close>

theorem extractFeatures_empty_string:
  "split_space (toLowerCase []) = [[]]
   \<and> extractFeatures [] =
       \<lparr>wordCount = Num 1, avgWordLength = Num 0, hasQuestionMarks = Num 0,
        hasExclamations = Num 0, speechRate = Num 1, sentiment = Num 0, complexity = Num 0\<rparr>"
  by (simp add: extractFeatures_def toLowerCase_def len_def jsum_def jor_def countChar_def
      calculateSentiment_def calculateComplexity_def arr_includes_def positiveWords_def
      negativeWords_def)

section \<open>The classifier as a decision list\<close>

text \<open>
  Claim C4. \<^verbatim>\<open>classify\<close> is an ordered decision list: a rule gives its label and its fixed
  confidence (0.85, 0.78, 0.82, 0.76, 0.80, 0.75) exactly when its condition holds and the
  conditions of all rules before it fail. On the features complexity 0.4, average word
  length 4.4, speech rate 5, word count 5, sentiment 0 the rules 1 to 5 fail and the result
  is Normal Speech with confidence 0.75.
\<close>

theorem classify_decision_list:
  "(jgt (complexity f) (Num 0.3) \<and> jgt (avgWordLength f) (Num 5)
      \<longrightarrow> classify f = \<lparr>type = ''Formal Speech'', confidence = Num 0.85\<rparr>)
   \<and> (\<not> (jgt (complexity f) (Num 0.3) \<and> jgt (avgWordLength f) (Num 5))
      \<and> jgt (speechRate f) (Num 10) \<and> jgt (sentiment f) (Num 0)
      \<longrightarrow> classify f = \<lparr>type = ''Excited Speech'', confidence = Num 0.78\<rparr>)
   \<and> (\<not> (jgt (complexity f) (Num 0.3) \<and> jgt (avgWordLength f) (Num 5))
      \<and> \<not> (jgt (speechRate f) (Num 10) \<and> jgt (sentiment f) (Num 0))
      \<and> jlt (avgWordLength f) (Num 4) \<and> jlt (wordCount f) (Num 5)
      \<longrightarrow> classify f = \<lparr>type = ''Casual Speech'', confidence = Num 0.82\<rparr>)
   \<and> (\<not> (jgt (complexity f) (Num 0.3) \<and> jgt (avgWordLength f) (Num 5))
      \<and> \<not> (jgt (speechRate f) (Num 10) \<and> jgt (sentiment f) (Num 0))
      \<and> \<not> (jlt (avgWordLength f) (Num 4) \<and> jlt (wordCount f) (Num 5))
      \<and> jlt (sentiment f) (Num 0)
      \<longrightarrow> classify f = \<lparr>type = ''Emotional Speech'', confidence = Num 0.76\<rparr>)
   \<and> (\<not> (jgt (complexity f) (Num 0.3) \<and> jgt (avgWordLength f) (Num 5))
      \<and> \<not> (jgt (speechRate f) (Num 10) \<and> jgt (sentiment f) (Num 0))
      \<and> \<not> (jlt (avgWordLength f) (Num 4) \<and> jlt (wordCount f) (Num 5))
      \<and> \<not> jlt (sentiment f) (Num 0)
      \<and> jlt (speechRate f) (Num 3)
      \<longrightarrow> classify f = \<lparr>type = ''Slow Speech'', confidence = Num 0.80\<rparr>)
   \<and> (\<not> (jgt (complexity f) (Num 0.3) \<and> jgt (avgWordLength f) (Num 5))
      \<and> \<not> (jgt (speechRate f) (Num 10) \<and> jgt (sentiment f) (Num 0))
      \<and> \<not> (jlt (avgWordLength f) (Num 4) \<and> jlt (wordCount f) (Num 5))
      \<and> \<not> jlt (sentiment f) (Num 0)
      \<and> \<not> jlt (speechRate f) (Num 3)
      \<longrightarrow> classify f = \<lparr>type = ''Normal Speech'', confidence = Num 0.75\<rparr>)
   \<and> classify \<lparr>wordCount = Num 5, avgWordLength = Num 4.4, hasQuestionMarks = q,
                hasExclamations = e, speechRate = Num 5, sentiment = Num 0,
                complexity = Num 0.4\<rparr>
       = \<lparr>type = ''Normal Speech'', confidence = Num 0.75\<rparr>"
  by (simp add: classify_def jlt_def)

theorem classify_decision_list_witness:
  "jgt (complexity (extractFeatures ''critical analysis'')) (Num 0.3)
   \<and> jgt (avgWordLength (extractFeatures ''critical analysis'')) (Num 5)
   \<and> classify (extractFeatures ''critical analysis'')
       = \<lparr>type = ''Formal Speech'', confidence = Num 0.85\<rparr>"
proof -
  have c: "jgt (complexity (extractFeatures ''critical analysis'')) (Num 0.3)"
    by code_simp
  have a: "jgt (avgWordLength (extractFeatures ''critical analysis'')) (Num 5)"
    by code_simp
  from c a classify_decision_list [of "extractFeatures ''critical analysis''"]
  show ?thesis by blast
qed

section \<open>The memory of the attention engine\<close>

lemma memoryBank_updateMemory:
  "memoryBank (updateMemory this u) =
     (if length (memoryBank this) \<ge> 5 then tl (memoryBank this @ [u])
      else memoryBank this @ [u])"
  by (simp add: updateMemory_def Let_def)

lemma foldl_updateMemory_bank:
  "memoryBank (foldl updateMemory constructor us) = drop (length us - 5) us"
proof (induction us rule: rev_induct)
  case Nil
  show ?case by (simp add: constructor_def)
next
  case (snoc u us)
  let ?k = "length us - 5"
  show ?case
  proof (cases "5 \<le> length us")
    case True
    then have ne: "drop ?k us \<noteq> []" by simp
    have len: "length (drop ?k us) \<ge> 5" using True by simp
    have "memoryBank (foldl updateMemory constructor (us @ [u])) = tl (drop ?k us @ [u])"
      using snoc len by (simp add: memoryBank_updateMemory)
    also have "\<dots> = tl (drop ?k us) @ [u]" using ne by simp
    also have "\<dots> = drop (Suc ?k) us @ [u]" by (simp add: drop_Suc tl_drop)
    also have "\<dots> = drop (length (us @ [u]) - 5) (us @ [u])"
    proof -
      have "Suc ?k = length (us @ [u]) - 5" using True by simp
      then show ?thesis by simp
    qed
    finally show ?thesis .
  next
    case False
    with snoc show ?thesis by (simp add: memoryBank_updateMemory)
  qed
qed

text \<open>
  Claim C8. The memory is a bounded queue of capacity 5. One call of \<^verbatim>\<open>updateMemory\<close> keeps
  a memory of at most 5 entries at most 5 entries long; after any sequence of calls on a new
  engine the memory holds the last 5 utterances of the sequence in their order (all of them
  when there are fewer), so it never exceeds 5 entries; and after 6 calls
  \<^verbatim>\<open>getRecentContext(5)\<close> returns the second to the sixth utterance, the first being evicted.
\<close>

theorem memory_bounded_fifo:
  "(length (memoryBank this) \<le> 5 \<longrightarrow> length (memoryBank (updateMemory this u)) \<le> 5)
   \<and> length (memoryBank (foldl updateMemory constructor us)) \<le> 5
   \<and> memoryBank (foldl updateMemory constructor us) = drop (length us - 5) us
   \<and> getRecentContext (foldl updateMemory constructor [u1, u2, u3, u4, u5, u6]) 5
       = [u2, u3, u4, u5, u6]"
proof -
  have "memoryBank (foldl updateMemory constructor [u1, u2, u3, u4, u5, u6])
          = [u2, u3, u4, u5, u6]"
    unfolding foldl_updateMemory_bank by simp
  then have "getRecentContext (foldl updateMemory constructor [u1, u2, u3, u4, u5, u6]) 5
       = [u2, u3, u4, u5, u6]"
    by (simp add: getRecentContext_def slice_from_def)
  then show ?thesis by (simp add: foldl_updateMemory_bank memoryBank_updateMemory)
qed

theorem memory_bounded_fifo_witness:
  "length (memoryBank constructor) \<le> 5
   \<and> length (memoryBank (updateMemory constructor ''one'')) \<le> 5
   \<and> getRecentContext
        (foldl updateMemory constructor
           [''one'', ''two'', ''three'', ''four'', ''five'', ''six'']) 5
       = [''two'', ''three'', ''four'', ''five'', ''six'']"
proof -
  have "length (memoryBank constructor) \<le> 5" by (simp add: constructor_def)
  with memory_bounded_fifo [of constructor "''one''" "[]" "''one''" "''two''" "''three''"
      "''four''" "''five''" "''six''"]
  show ?thesis by blast
qed

section \<open>Quality assessment\<close>

lemma checked_score:
  "fst (rmsCheck a (consistencyCheck sc (frequencyCheck a (volumeCheck a (0, []))))) =
     25 * (of_bool (goodVolume a) + of_bool (goodFrequency a)
           + of_bool (consistentLevels sc) + of_bool (goodRange a))"
  by (simp add: rmsCheck_def consistencyCheck_def frequencyCheck_def volumeCheck_def)

lemma checked_factors:
  "snd (rmsCheck a (consistencyCheck sc (frequencyCheck a (volumeCheck a (0, []))))) =
     (if goodVolume a then [''Good volume level'']
      else if jlt (average a) (Num 0.1) then [''Volume too low'']
      else if jgt (average a) (Num 0.9) then [''Volume too high''] else [])
     @ (if goodFrequency a then [''Good frequency distribution''] else [])
     @ (if consistentLevels sc then [''Consistent audio levels''] else [])
     @ (if goodRange a then [''Good dynamic range''] else [])"
  by (simp add: rmsCheck_def consistencyCheck_def frequencyCheck_def volumeCheck_def)

lemma score_assessQuality:
  "score (assessQuality a sc) =
     25 * (of_bool (goodVolume a) + of_bool (goodFrequency a)
           + of_bool (consistentLevels sc) + of_bool (goodRange a))"
  by (simp add: assessQuality_def Let_def checked_score)

lemma level_assessQuality:
  "level (assessQuality a sc) = qualityLevel (score (assessQuality a sc))"
  by (simp add: assessQuality_def Let_def)

text \<open>
  Claim C6. For every frame and every optional pattern summary the score of
  \<^verbatim>\<open>assessQuality\<close> is 25 times the number of checks that pass, hence one of 0, 25, 50,
  75, 100; the level is excellent exactly for a score of at least 75, good exactly from 50
  to below 75, fair exactly from 25 to below 50, and poor exactly below 25. The tiering puts
  75 at excellent and 74 at good.
\<close>

theorem assessQuality_score_level:
  "score (assessQuality a sc) \<in> {0, 25, 50, 75, 100}
   \<and> score (assessQuality a sc) =
        25 * (of_bool (goodVolume a) + of_bool (goodFrequency a)
              + of_bool (consistentLevels sc) + of_bool (goodRange a))
   \<and> (level (assessQuality a sc) = ''excellent'') = (score (assessQuality a sc) \<ge> 75)
   \<and> (level (assessQuality a sc) = ''good'')
       = (50 \<le> score (assessQuality a sc) \<and> score (assessQuality a sc) < 75)
   \<and> (level (assessQuality a sc) = ''fair'')
       = (25 \<le> score (assessQuality a sc) \<and> score (assessQuality a sc) < 50)
   \<and> (level (assessQuality a sc) = ''poor'') = (score (assessQuality a sc) < 25)
   \<and> qualityLevel 75 = ''excellent'' \<and> qualityLevel 74 = ''good''"
  unfolding level_assessQuality
  by (simp add: score_assessQuality qualityLevel_def)

theorem assessQuality_score_level_witness:
  "score (assessQuality
            \<lparr>average = Num 0.5, peak = Num 0.9, rms = Num 0.9, isSpeaking = True,
             frequencyDistribution = \<lparr>low = Num 0.2, mid = Num 0.6, high = Num 0.1\<rparr>,
             timestamp = 0\<rparr> None) = 50
   \<and> level (assessQuality
            \<lparr>average = Num 0.5, peak = Num 0.9, rms = Num 0.9, isSpeaking = True,
             frequencyDistribution = \<lparr>low = Num 0.2, mid = Num 0.6, high = Num 0.1\<rparr>,
             timestamp = 0\<rparr> None) = ''good''"
  using assessQuality_score_level
    [of "\<lparr>average = Num 0.5, peak = Num 0.9, rms = Num 0.9, isSpeaking = True,
          frequencyDistribution = \<lparr>low = Num 0.2, mid = Num 0.6, high = Num 0.1\<rparr>,
          timestamp = 0\<rparr>" None]
  by (simp add: goodVolume_def goodFrequency_def consistentLevels_def goodRange_def
      jge_def jle_def jlt_def)

text \<open>
  Claim C7. The recommendations of \<^verbatim>\<open>assessQuality\<close> are empty when the score is at least
  75; below 75 they are, in the order of the checks, the fixed remediation string of each
  check that did not pass and nothing for a check that passed.
\<close>

theorem assessQuality_recommendations:
  "recommendations (assessQuality a sc) =
     (if score (assessQuality a sc) \<ge> 75 then []
      else (if goodVolume a then [] else [''Adjust microphone distance or system volume''])
         @ (if goodFrequency a then []
            else [''Check microphone quality and reduce background noise''])
         @ (if consistentLevels sc then []
            else [''Maintain steady speaking volume and distance''])
         @ (if goodRange a then []
            else [''Ensure proper microphone settings and audio drivers'']))"
  by (simp add: assessQuality_def Let_def checked_score checked_factors
      generateRecommendations_def arr_includes_def)

theorem assessQuality_recommendations_witness:
  "recommendations (assessQuality
            \<lparr>average = Num 0.5, peak = Num 0.9, rms = Num 0.9, isSpeaking = True,
             frequencyDistribution = \<lparr>low = Num 0.2, mid = Num 0.6, high = Num 0.1\<rparr>,
             timestamp = 0\<rparr> None)
     = [''Maintain steady speaking volume and distance'',
        ''Ensure proper microphone settings and audio drivers'']"
  using assessQuality_recommendations
    [of "\<lparr>average = Num 0.5, peak = Num 0.9, rms = Num 0.9, isSpeaking = True,
          frequencyDistribution = \<lparr>low = Num 0.2, mid = Num 0.6, high = Num 0.1\<rparr>,
          timestamp = 0\<rparr>" None]
  by (simp add: score_assessQuality goodVolume_def goodFrequency_def consistentLevels_def
      goodRange_def jge_def jle_def jlt_def)

section \<open>Speech characteristics of the recent history\<close>

lemma slice_from_last: "slice_from (- 10) xs = drop (length xs - 10) xs"
proof -
  have "nat (max (int (length xs) + - 10) 0) = length xs - 10" by simp
  then show ?thesis by (simp add: slice_from_def Let_def)
qed

lemma recent_nonempty: "xs \<noteq> [] \<Longrightarrow> slice_from (- 10) xs \<noteq> []"
proof -
  assume "xs \<noteq> []"
  then have "length xs - 10 < length xs" by (cases xs) simp_all
  then show ?thesis by (simp add: slice_from_last)
qed

text \<open>
  Claim C10. For every non-empty history \<^verbatim>\<open>calculateSpeechCharacteristics\<close> returns a summary
  whose speech pattern is one of continuous, intermittent, sparse and silent; the initial
  value unknown is never returned.
\<close>

theorem speechPattern_never_unknown:
  "audioHistory \<noteq> [] \<Longrightarrow>
     \<exists>sc. calculateSpeechCharacteristics audioHistory = Some sc
          \<and> speechPattern sc \<in> {''continuous'', ''intermittent'', ''sparse'', ''silent''}
          \<and> speechPattern sc \<noteq> ''unknown''"
  by (simp add: calculateSpeechCharacteristics_def Let_def)

theorem speechPattern_never_unknown_witness:
  "\<exists>sc. calculateSpeechCharacteristics
           [\<lparr>average = Num 0.5, peak = Num 0.9, rms = Num 0.6, isSpeaking = True,
             frequencyDistribution = \<lparr>low = Num 0.2, mid = Num 0.6, high = Num 0.1\<rparr>,
             timestamp = 0\<rparr>] = Some sc
        \<and> speechPattern sc = ''continuous''"
proof -
  let ?h = "[\<lparr>average = Num 0.5, peak = Num 0.9, rms = Num 0.6, isSpeaking = True,
              frequencyDistribution = \<lparr>low = Num 0.2, mid = Num 0.6, high = Num 0.1\<rparr>,
              timestamp = 0\<rparr>]"
  have "?h \<noteq> []" by simp
  from speechPattern_never_unknown [OF this]
  obtain sc where sc: "calculateSpeechCharacteristics ?h = Some sc" by blast
  then have "speechPattern sc = ''continuous''"
    by (auto simp add: calculateSpeechCharacteristics_def Let_def slice_from_def len_def)
  with sc show ?thesis by blast
qed

lemma inUnit_Num: "inUnit x \<Longrightarrow> \<exists>r. x = Num r \<and> 0 \<le> r \<and> r \<le> 1"
  by (cases x) (simp_all add: inUnit_def)

lemma all_inUnit_map_Num:
  "\<forall>x \<in> set xs. inUnit x \<Longrightarrow> \<exists>rs. xs = map Num rs \<and> (\<forall>r \<in> set rs. 0 \<le> r \<and> r \<le> 1)"
proof (induction xs)
  case Nil
  show ?case by simp
next
  case (Cons x xs)
  then obtain rs where rs: "xs = map Num rs" "\<forall>r \<in> set rs. 0 \<le> r \<and> r \<le> 1" by auto
  from Cons.prems obtain r where r: "x = Num r" "0 \<le> r" "r \<le> 1" using inUnit_Num by auto
  show ?case by (rule exI [of _ "r # rs"]) (use r rs in simp)
qed

lemma foldl_jmax_Num: "foldl jmax (Num a) (map Num rs) = Num (foldl max a rs)"
  by (induction rs arbitrary: a) (simp_all add: jmax_def max_def)

lemma foldl_jmin_Num: "foldl jmin (Num a) (map Num rs) = Num (foldl min a rs)"
  by (induction rs arbitrary: a) (simp_all add: jmin_def min_def)

lemma Math_max_Cons: "Math_max (Num r # map Num rs) = Num (foldl max r rs)"
  by (simp add: Math_max_def jmax_def foldl_jmax_Num)

lemma Math_min_Cons: "Math_min (Num r # map Num rs) = Num (foldl min r rs)"
  by (simp add: Math_min_def jmin_def foldl_jmin_Num)

lemma foldl_max_bounds:
  fixes a :: real
  shows "lo \<le> a \<Longrightarrow> a \<le> hi \<Longrightarrow> \<forall>r \<in> set rs. lo \<le> r \<and> r \<le> hi
    \<Longrightarrow> lo \<le> foldl max a rs \<and> foldl max a rs \<le> hi"
  by (induction rs arbitrary: a) simp_all

lemma foldl_min_bounds:
  fixes a :: real
  shows "lo \<le> a \<Longrightarrow> a \<le> hi \<Longrightarrow> \<forall>r \<in> set rs. lo \<le> r \<and> r \<le> hi
    \<Longrightarrow> lo \<le> foldl min a rs \<and> foldl min a rs \<le> hi"
  by (induction rs arbitrary: a) simp_all

lemma foldl_min_le_max:
  fixes a b :: real
  shows "a \<le> b \<Longrightarrow> foldl min a rs \<le> foldl max b rs"
proof (induction rs arbitrary: a b)
  case Nil
  then show ?case by simp
next
  case (Cons r rs)
  have "min a r \<le> max b r" using Cons.prems by simp
  then show ?case using Cons.IH by simp
qed

text \<open>
  Claim C3. For every non-empty history whose frames all have an average in the interval from
  0 to 1, \<^verbatim>\<open>calculateSpeechCharacteristics\<close> returns a summary whose consistency is a finite
  number in the interval from 0 to 1.
\<close>

theorem consistency_in_unit:
  assumes ne: "audioHistory \<noteq> []"
    and unit: "\<forall>d \<in> set audioHistory. inUnit (average d)"
  shows "\<exists>sc. calculateSpeechCharacteristics audioHistory = Some sc \<and> inUnit (consistency sc)"
proof -
  let ?recent = "slice_from (- 10) audioHistory"
  have rne: "?recent \<noteq> []" using ne by (rule recent_nonempty)
  have sub: "set ?recent \<subseteq> set audioHistory"
    by (simp add: slice_from_last set_drop_subset)
  have "\<forall>x \<in> set (map average ?recent). inUnit x" using unit sub by auto
  then obtain rs where rs: "map average ?recent = map Num rs" "\<forall>r \<in> set rs. 0 \<le> r \<and> r \<le> 1"
    using all_inUnit_map_Num by blast
  from rne rs(1) obtain r rs' where cons: "rs = r # rs'" by (cases rs) auto
  have r: "0 \<le> r" "r \<le> 1" and rs': "\<forall>q \<in> set rs'. 0 \<le> q \<and> q \<le> 1"
    using rs(2) cons by auto
  have mx: "0 \<le> foldl max r rs' \<and> foldl max r rs' \<le> 1"
    using r rs' by (rule foldl_max_bounds)
  have mn: "0 \<le> foldl min r rs' \<and> foldl min r rs' \<le> 1"
    using r rs' by (rule foldl_min_bounds)
  have le: "foldl min r rs' \<le> foldl max r rs'" by (rule foldl_min_le_max) simp
  have "jsub (Num 1) (jsub (Math_max (map average ?recent)) (Math_min (map average ?recent)))
          = Num (1 - (foldl max r rs' - foldl min r rs'))"
    by (simp add: rs(1) cons Math_max_Cons Math_min_Cons jsub_def)
  moreover have "inUnit (Num (1 - (foldl max r rs' - foldl min r rs')))"
    using mx mn le by (simp add: inUnit_def)
  ultimately show ?thesis using ne
    by (simp add: calculateSpeechCharacteristics_def Let_def)
qed

theorem consistency_in_unit_witness:
  "inUnit (Num 0.2) \<and> inUnit (Num 0.9)
   \<and> (\<exists>sc. calculateSpeechCharacteristics
             [\<lparr>average = Num 0.2, peak = Num 0.9, rms = Num 0.6, isSpeaking = True,
               frequencyDistribution = \<lparr>low = Num 0.2, mid = Num 0.6, high = Num 0.1\<rparr>,
               timestamp = 0\<rparr>,
              \<lparr>average = Num 0.9, peak = Num 1, rms = Num 0.9, isSpeaking = True,
               frequencyDistribution = \<lparr>low = Num 0.2, mid = Num 0.6, high = Num 0.1\<rparr>,
               timestamp = 1\<rparr>] = Some sc
          \<and> inUnit (consistency sc))"
proof -
  let ?h = "[\<lparr>average = Num 0.2, peak = Num 0.9, rms = Num 0.6, isSpeaking = True,
               frequencyDistribution = \<lparr>low = Num 0.2, mid = Num 0.6, high = Num 0.1\<rparr>,
               timestamp = 0\<rparr>,
              \<lparr>average = Num 0.9, peak = Num 1, rms = Num 0.9, isSpeaking = True,
               frequencyDistribution = \<lparr>low = Num 0.2, mid = Num 0.6, high = Num 0.1\<rparr>,
               timestamp = 1\<rparr>]"
  have u: "inUnit (Num 0.2) \<and> inUnit (Num 0.9)" by (simp add: inUnit_def)
  have ne: "?h \<noteq> []" by simp
  have all: "\<forall>d \<in> set ?h. inUnit (average d)" using u by simp
  from consistency_in_unit [OF ne all] u show ?thesis by blast
qed

section \<open>Frequency analysis of a frame\<close>

lemma foldl_jadd_Num: "foldl jadd (Num a) (map Num rs) = Num (a + sum_list rs)"
  by (induction rs arbitrary: a) (simp_all add: add.assoc)

lemma jsum_map_Num: "jsum (map Num rs) = Num (sum_list rs)"
  by (simp add: jsum_def foldl_jadd_Num)

lemma map_byte: "map byte ws = map Num (map (\<lambda>w. real (unat w)) ws)"
  by (simp add: byte_def)

lemma byte_le: "real (unat (w :: 8 word)) \<le> 255"
proof -
  have "unat w < 2 ^ LENGTH(8)" by (rule unsigned_less)
  then have "unat w \<le> 255" by simp
  then have "real (unat w) \<le> real 255" by (simp only: of_nat_le_iff)
  then show ?thesis by (simp only: of_nat_numeral)
qed

lemma byte_range: "\<forall>w \<in> set (ws :: 8 word list). 0 \<le> real (unat w) \<and> real (unat w) \<le> 255"
  using byte_le by (simp only: of_nat_0_le_iff simp_thms ball_triv)

lemma sum_list_bounds:
  fixes f :: "'a \<Rightarrow> real"
  assumes "\<forall>x \<in> set xs. 0 \<le> f x \<and> f x \<le> c"
  shows "0 \<le> sum_list (map f xs) \<and> sum_list (map f xs) \<le> c * real (length xs)"
  using assms by (induction xs) (auto simp add: algebra_simps)

lemma mean_bytes:
  assumes "ws \<noteq> []"
  shows "jdiv (mean (map byte ws)) (Num 255)
           = Num (sum_list (map (\<lambda>w. real (unat w)) ws) / real (length ws) / 255)"
    and "inUnit (jdiv (mean (map byte ws)) (Num 255))"
proof -
  let ?s = "sum_list (map (\<lambda>w. real (unat w)) ws)"
  have n: "0 < real (length ws)" using assms by simp
  show eq: "jdiv (mean (map byte ws)) (Num 255) = Num (?s / real (length ws) / 255)"
    unfolding mean_def map_byte jsum_map_Num len_def using assms by simp
  have "0 \<le> ?s \<and> ?s \<le> 255 * real (length ws)"
    by (rule sum_list_bounds) (rule byte_range)
  then have "0 \<le> ?s / real (length ws) \<and> ?s / real (length ws) \<le> 255"
    using n by (simp add: pos_divide_le_eq)
  then show "inUnit (jdiv (mean (map byte ws)) (Num 255))"
    unfolding eq by (simp add: inUnit_def)
qed

lemma toInteger_quarter: "toInteger (real n / 4) = int (n div 4)"
proof -
  have "\<lfloor>real n / real (4::nat)\<rfloor> = int (n div 4)" by (rule floor_divide_of_nat_eq)
  then show ?thesis by (simp add: toInteger_def)
qed

lemma toInteger_three_quarters: "toInteger (3 * real n / 4) = int (3 * n div 4)"
proof -
  have "\<lfloor>real (3 * n) / real (4::nat)\<rfloor> = int (3 * n div 4)" by (rule floor_divide_of_nat_eq)
  then show ?thesis by (simp add: toInteger_def)
qed

lemma toInteger_nat: "toInteger (real n) = int n"
  by (simp add: toInteger_def)

lemma slice_nat:
  assumes "toInteger s = int a" "toInteger e = int b" "a \<le> b" "b \<le> length xs"
  shows "slice s e xs = take (b - a) (drop a xs)"
  using assms by (simp add: slice_def relIndex_def Let_def nat_diff_distrib' min_def)

lemma sum_list_range:
  assumes "a \<le> b" "b \<le> length xs"
  shows "sum_list (map f (take (b - a) (drop a xs))) = (\<Sum>i = a..<b. f (xs ! i))"
proof -
  have len: "length (map f (take (b - a) (drop a xs))) = b - a" using assms by simp
  have "sum_list (map f (take (b - a) (drop a xs)))
          = (\<Sum>i = 0..<b - a. map f (take (b - a) (drop a xs)) ! i)"
    unfolding sum_list_sum_nth len ..
  also have "\<dots> = (\<Sum>i = 0..<b - a. f (take (b - a) (drop a xs) ! i))"
    using assms by (intro sum.cong) simp_all
  also have "\<dots> = (\<Sum>i = 0..<b - a. f (xs ! (i + a)))"
    using assms by (intro sum.cong) (simp_all add: add.commute)
  also have "\<dots> = (\<Sum>i = a..<b. f (xs ! i))"
    using assms sum.shift_bounds_nat_ivl [of "\<lambda>i. f (xs ! i)" 0 a "b - a"] by simp
  finally show ?thesis .
qed


lemma average_analyze:
  "average (analyzeFrequencyData ws now) = jdiv (mean (map byte ws)) (Num 255)"
  by (simp add: analyzeFrequencyData_def Let_def mean_def len_def)

lemma peak_analyze:
  "peak (analyzeFrequencyData ws now) = jdiv (Math_max (map byte ws)) (Num 255)"
  by (simp add: analyzeFrequencyData_def Let_def)

lemma rms_analyze:
  "rms (analyzeFrequencyData ws now) =
     jdiv (Math_sqrt (jdiv (jsum (map (\<lambda>value. jmul (byte value) (byte value)) ws))
                           (Num (real (length ws))))) (Num 255)"
  by (simp add: analyzeFrequencyData_def Let_def)

lemma bands_analyze:
  "low (frequencyDistribution (analyzeFrequencyData ws now))
     = jdiv (mean (map byte (slice 0 (real (length ws) / 4) ws))) (Num 255)"
  "mid (frequencyDistribution (analyzeFrequencyData ws now))
     = jdiv (mean (map byte (slice (real (length ws) / 4) (3 * real (length ws) / 4) ws))) (Num 255)"
  "high (frequencyDistribution (analyzeFrequencyData ws now))
     = jdiv (mean (map byte (slice (3 * real (length ws) / 4) (real (length ws)) ws))) (Num 255)"
  by (simp_all add: analyzeFrequencyData_def Let_def)

lemma peak_bytes:
  assumes "ws \<noteq> []"
  shows "inUnit (jdiv (Math_max (map byte ws)) (Num 255))"
proof -
  from assms obtain w ws' where ws: "ws = w # ws'" by (cases ws) auto
  let ?r = "real (unat w)" and ?rs = "map (\<lambda>w. real (unat w)) ws'"
  have eq: "map byte ws = Num ?r # map Num ?rs"
    unfolding ws map_byte by (simp only: list.map)
  have r: "0 \<le> ?r" "?r \<le> 255" using byte_le by (simp_all only: of_nat_0_le_iff)
  have "\<forall>q \<in> set ?rs. 0 \<le> q \<and> q \<le> 255"
    using byte_range [of ws'] by (simp only: set_map ball_simps)
  with r have "0 \<le> foldl max ?r ?rs \<and> foldl max ?r ?rs \<le> 255" by (rule foldl_max_bounds)
  then show ?thesis unfolding eq Math_max_Cons by (simp add: inUnit_def)
qed

lemma rms_bytes:
  assumes "ws \<noteq> []"
  shows "inUnit (jdiv (Math_sqrt (jdiv (jsum (map (\<lambda>value. jmul (byte value) (byte value)) ws))
                           (Num (real (length ws))))) (Num 255))"
proof -
  let ?f = "\<lambda>w :: 8 word. real (unat w) * real (unat w)"
  let ?s = "sum_list (map ?f ws)"
  have n: "0 < real (length ws)" using assms by simp
  have m: "map (\<lambda>value. jmul (byte value) (byte value)) ws = map Num (map ?f ws)"
    unfolding byte_def by (simp only: jmul.simps map_map comp_def)
  have "\<forall>w \<in> set ws. 0 \<le> ?f w \<and> ?f w \<le> 255 * 255"
  proof
    fix w assume "w \<in> set ws"
    have "0 \<le> real (unat w)" by (simp only: of_nat_0_le_iff)
    then show "0 \<le> ?f w \<and> ?f w \<le> 255 * 255"
      using byte_le [of w] by (intro conjI mult_nonneg_nonneg mult_mono) simp_all
  qed
  then have "0 \<le> ?s \<and> ?s \<le> 255 * 255 * real (length ws)" by (rule sum_list_bounds)
  then have b: "0 \<le> ?s / real (length ws)" "?s / real (length ws) \<le> 255\<^sup>2"
    using n by (simp_all add: pos_divide_le_eq power2_eq_square)
  have "sqrt (?s / real (length ws)) \<le> 255" using b(2) by (intro real_le_lsqrt) simp_all
  moreover have "0 \<le> sqrt (?s / real (length ws))" using b(1) by simp
  ultimately show ?thesis
    unfolding m jsum_map_Num using n b(1) by (simp add: inUnit_def)
qed

text \<open>
  Claim C9. For every sample sequence of at least 4 bytes, \<^verbatim>\<open>analyzeFrequencyData\<close> returns
  an average, a peak and a root mean square that are finite numbers between 0 and 1, and three
  band energies between 0 and 1, where with \<open>N\<close> the number of samples and integer division
  the low band is the mean over the indices from 0 to below \<open>N div 4\<close>, the mid band the mean
  from \<open>N div 4\<close> to below \<open>3 * N div 4\<close>, and the high band the mean from \<open>3 * N div 4\<close>
  to below \<open>N\<close>, each divided by 255.
\<close>

theorem analyzeFrequencyData_ranges:
  assumes "4 \<le> length dataArray"
  shows "(let d = analyzeFrequencyData dataArray now;
              fd = frequencyDistribution d;
              N = length dataArray;
              v = (\<lambda>i. real (unat (dataArray ! i)))
          in inUnit (average d) \<and> inUnit (peak d) \<and> inUnit (rms d)
             \<and> inUnit (low fd) \<and> inUnit (mid fd) \<and> inUnit (high fd)
             \<and> low fd = Num ((\<Sum>i = 0..<N div 4. v i) / real (N div 4) / 255)
             \<and> mid fd = Num ((\<Sum>i = N div 4..<3 * N div 4. v i)
                              / real (3 * N div 4 - N div 4) / 255)
             \<and> high fd = Num ((\<Sum>i = 3 * N div 4..<N. v i) / real (N - 3 * N div 4) / 255))"
proof -
  let ?N = "length dataArray"
  let ?q = "?N div 4" and ?t = "3 * ?N div 4"
  let ?lo = "take (?q - 0) (drop 0 dataArray)"
  let ?mi = "take (?t - ?q) (drop ?q dataArray)"
  let ?hi = "take (?N - ?t) (drop ?t dataArray)"
  have ne: "dataArray \<noteq> []" using assms by auto
  have ord: "0 < ?q" "?q < ?t" "?t < ?N" using assms by simp_all
  have z: "toInteger 0 = int 0" by (simp add: toInteger_def)
  have lo: "slice 0 (real ?N / 4) dataArray = ?lo"
    using z toInteger_quarter by (rule slice_nat) (use ord in simp_all)
  have mi: "slice (real ?N / 4) (3 * real ?N / 4) dataArray = ?mi"
    using toInteger_quarter toInteger_three_quarters by (rule slice_nat) (use ord in simp_all)
  have hi: "slice (3 * real ?N / 4) (real ?N) dataArray = ?hi"
    using toInteger_three_quarters toInteger_nat by (rule slice_nat) (use ord in simp_all)
  have lone: "?lo \<noteq> []" and mine: "?mi \<noteq> []" and hine: "?hi \<noteq> []"
    using ord ne by simp_all
  have llen: "length ?lo = ?q" and mlen: "length ?mi = ?t - ?q" and hlen: "length ?hi = ?N - ?t"
    using ord by simp_all
  have lsum: "sum_list (map (\<lambda>w. real (unat w)) ?lo) = (\<Sum>i = 0..<?q. real (unat (dataArray ! i)))"
    by (rule sum_list_range) (use ord in simp_all)
  have msum: "sum_list (map (\<lambda>w. real (unat w)) ?mi) = (\<Sum>i = ?q..<?t. real (unat (dataArray ! i)))"
    by (rule sum_list_range) (use ord in simp_all)
  have hsum: "sum_list (map (\<lambda>w. real (unat w)) ?hi) = (\<Sum>i = ?t..<?N. real (unat (dataArray ! i)))"
    by (rule sum_list_range) (use ord in simp_all)
  have 1: "inUnit (average (analyzeFrequencyData dataArray now))"
    unfolding average_analyze using ne by (rule mean_bytes(2))
  have 2: "inUnit (peak (analyzeFrequencyData dataArray now))"
    unfolding peak_analyze using ne by (rule peak_bytes)
  have 3: "inUnit (rms (analyzeFrequencyData dataArray now))"
    unfolding rms_analyze using ne by (rule rms_bytes)
  have 4: "inUnit (low (frequencyDistribution (analyzeFrequencyData dataArray now)))"
    unfolding bands_analyze lo using lone by (rule mean_bytes(2))
  have 5: "inUnit (mid (frequencyDistribution (analyzeFrequencyData dataArray now)))"
    unfolding bands_analyze mi using mine by (rule mean_bytes(2))
  have 6: "inUnit (high (frequencyDistribution (analyzeFrequencyData dataArray now)))"
    unfolding bands_analyze hi using hine by (rule mean_bytes(2))
  have 7: "low (frequencyDistribution (analyzeFrequencyData dataArray now))
             = Num ((\<Sum>i = 0..<?q. real (unat (dataArray ! i))) / real ?q / 255)"
    unfolding bands_analyze lo mean_bytes(1) [OF lone] lsum llen ..
  have 8: "mid (frequencyDistribution (analyzeFrequencyData dataArray now))
             = Num ((\<Sum>i = ?q..<?t. real (unat (dataArray ! i))) / real (?t - ?q) / 255)"
    unfolding bands_analyze mi mean_bytes(1) [OF mine] msum mlen ..
  have 9: "high (frequencyDistribution (analyzeFrequencyData dataArray now))
             = Num ((\<Sum>i = ?t..<?N. real (unat (dataArray ! i))) / real (?N - ?t) / 255)"
    unfolding bands_analyze hi mean_bytes(1) [OF hine] hsum hlen ..
  from 1 2 3 4 5 6 7 8 9 show ?thesis unfolding Let_def by (intro conjI)
qed


theorem analyzeFrequencyData_ranges_witness:
  "4 \<le> length [10, 200, 255, 0 :: 8 word]
   \<and> inUnit (average (analyzeFrequencyData [10, 200, 255, 0] 0))
   \<and> inUnit (peak (analyzeFrequencyData [10, 200, 255, 0] 0))
   \<and> inUnit (rms (analyzeFrequencyData [10, 200, 255, 0] 0))
   \<and> low (frequencyDistribution (analyzeFrequencyData [10, 200, 255, 0] 0)) = Num (10 / 255)
   \<and> mid (frequencyDistribution (analyzeFrequencyData [10, 200, 255, 0] 0)) = Num (455 / 510)
   \<and> high (frequencyDistribution (analyzeFrequencyData [10, 200, 255, 0] 0)) = Num 0"
proof -
  have len: "4 \<le> length [10, 200, 255, 0 :: 8 word]" by simp
  have s1: "{0..<Suc 0} = {0}" and s2: "{Suc 0..<3} = {1, 2}" and s3: "{3..<4} = {3::nat}"
    by auto
  from analyzeFrequencyData_ranges [OF len, of 0] len
  show ?thesis by (simp add: Let_def s1 s2 s3)
qed

section \<open>Single-head attention\<close>

lemma isFinite_Num: "isFinite x \<Longrightarrow> \<exists>r. x = Num r"
  by (cases x) simp_all

lemma groupLoop_finite: "isFinite (groupLoop gs w c)"
  by (induction gs) simp_all

lemma calculateContextRelevance_finite: "isFinite (calculateContextRelevance w c)"
  by (simp add: calculateContextRelevance_def Let_def groupLoop_finite)

lemma wordWeight_finite: "isFinite (wordWeight words context w i)"
proof -
  obtain c where c: "calculateContextRelevance w context = Num c"
    using calculateContextRelevance_finite isFinite_Num by blast
  show ?thesis by (simp add: wordWeight_def Let_def c jmin_def jmax_def)
qed

lemma map_finite_Num: "\<forall>x \<in> set xs. isFinite (f x) \<Longrightarrow> \<exists>rs. map f xs = map Num rs"
proof (induction xs)
  case Nil
  show ?case by simp
next
  case (Cons x xs)
  then obtain rs where rs: "map f xs = map Num rs" by auto
  from Cons.prems obtain r where r: "f x = Num r" using isFinite_Num by auto
  show ?case by (rule exI [of _ "r # rs"]) (use r rs in simp)
qed

lemma sum_list_exp_pos:
  fixes rs :: "real list"
  assumes "rs \<noteq> []"
  shows "0 < sum_list (map exp rs)"
proof -
  obtain r rs' where rs: "rs = r # rs'" using assms by (cases rs) auto
  have "0 < exp r" by simp
  moreover have "0 \<le> sum_list (map exp rs')" by (rule sum_list_nonneg) auto
  ultimately have "0 < exp r + sum_list (map exp rs')" by (rule add_pos_nonneg)
  then show ?thesis unfolding rs by simp
qed

lemma sum_list_divide:
  fixes f :: "'a \<Rightarrow> real"
  shows "sum_list (map (\<lambda>x. f x / c) xs) = sum_list (map f xs) / c"
  by (induction xs) (simp_all add: add_divide_distrib)

lemma member_le_sum_list_real:
  fixes xs :: "real list"
  shows "\<forall>x \<in> set xs. 0 \<le> x \<Longrightarrow> y \<in> set xs \<Longrightarrow> y \<le> sum_list xs"
proof (induction xs)
  case Nil
  then show ?case by simp
next
  case (Cons x xs)
  have "0 \<le> sum_list xs" using Cons.prems(1) by (intro sum_list_nonneg) simp
  then show ?case using Cons by auto
qed

lemma softmax_Num:
  assumes "rs \<noteq> []"
  shows "softmax (map Num rs) = map Num (map (\<lambda>r. exp r / sum_list (map exp rs)) rs)"
proof -
  have pos: "0 < sum_list (map exp rs)" using assms by (rule sum_list_exp_pos)
  have me: "map Math_exp (map Num rs) = map Num (map exp rs)" by simp
  show ?thesis unfolding softmax_def Let_def me jsum_map_Num using pos by simp
qed

text \<open>
  Claim C5. For every non-empty token sequence and every context, the weights returned by
  \<^verbatim>\<open>calculateAttention\<close> sum to exactly 1 in exact arithmetic, each weight is a finite number
  between 0 and 1, and there is one weight per token.
\<close>

theorem calculateAttention_sums_to_one:
  assumes "words \<noteq> []"
  shows "jsum (calculateAttention words context) = Num 1
         \<and> list_all inUnit (calculateAttention words context)
         \<and> length (calculateAttention words context) = length words"
proof -
  let ?ws = "map (\<lambda>(word, index). wordWeight words context word index)
                 (zip words [0 ..< length words])"
  have "\<forall>x \<in> set (zip words [0 ..< length words]).
          isFinite ((\<lambda>(word, index). wordWeight words context word index) x)"
    using wordWeight_finite by auto
  then obtain rs where rs: "?ws = map Num rs" using map_finite_Num by blast
  have "length ?ws = length words" by simp
  then have len: "length rs = length words" unfolding rs by simp
  then have ne: "rs \<noteq> []" using assms by auto
  let ?S = "sum_list (map exp rs)"
  have pos: "0 < ?S" using ne by (rule sum_list_exp_pos)
  have ca: "calculateAttention words context = map Num (map (\<lambda>r. exp r / ?S) rs)"
    unfolding calculateAttention_def rs using ne by (rule softmax_Num)
  have "sum_list (map (\<lambda>r. exp r / ?S) rs) = ?S / ?S"
    using sum_list_divide [of exp ?S rs] by simp
  then have one: "sum_list (map (\<lambda>r. exp r / ?S) rs) = 1" using pos by simp
  have unit: "\<forall>r \<in> set rs. 0 \<le> exp r / ?S \<and> exp r / ?S \<le> 1"
  proof
    fix r assume "r \<in> set rs"
    then have "exp r \<in> set (map exp rs)" by simp
    moreover have "\<forall>x \<in> set (map exp rs). 0 \<le> x" by simp
    ultimately have "exp r \<le> ?S" using member_le_sum_list_real by blast
    then show "0 \<le> exp r / ?S \<and> exp r / ?S \<le> 1" using pos by simp
  qed
  have "jsum (calculateAttention words context) = Num 1"
    unfolding ca jsum_map_Num one ..
  moreover have "list_all inUnit (calculateAttention words context)"
    unfolding ca using unit by (simp add: list_all_iff inUnit_def)
  moreover have "length (calculateAttention words context) = length words"
    unfolding ca using len by simp
  ultimately show ?thesis by blast
qed


theorem calculateAttention_sums_to_one_witness:
  "jsum (calculateAttention [''urgent'', ''meeting'', ''today''] [''call me'']) = Num 1
   \<and> length (calculateAttention [''urgent'', ''meeting'', ''today''] [''call me'']) = 3"
proof -
  have "[''urgent'', ''meeting'', ''today''] \<noteq> []" by simp
  from calculateAttention_sums_to_one [OF this, of "[''call me'']"]
  show ?thesis by simp
qed

end
